theory Spec2Isabelle
  imports Complex_Main "HOL-Library.Sublist"
begin

section \<open>Python values: exceptions, strings, numbers\<close>

text \<open>
  The exceptions that \<^verbatim>\<open>genai.py\<close> and \<^verbatim>\<open>utils.py\<close> raise themselves carry their
  message (the long text of the \<^verbatim>\<open>RuntimeError\<close> of \<^verbatim>\<open>_jarvis\<close> is left out);
  \<open>Raised\<close> stands for any other exception of class \<^verbatim>\<open>Exception\<close> that a library or
  the backend raises.
\<close>

datatype error =
    ValueError string
  | FileNotFoundError string
  | RuntimeError
  | TypeError
  | IndexError
  | AttributeError
  | NameError
  | Raised string

text \<open>
  \<^verbatim>\<open>str.replace(old, new)\<close>: the occurrences of \<open>old\<close> are found from the left and do
  not overlap; the scan goes on after each replaced occurrence. With an empty \<open>old\<close>,
  Python puts \<open>new\<close> before every character and at the end.
\<close>

function replace :: "string \<Rightarrow> string \<Rightarrow> string \<Rightarrow> string" where
  "replace s old new =
     (if old = [] then new @ concat (map (\<lambda>c. c # new) s)
      else if s = [] then []
      else if prefix old s then new @ replace (drop (length old) s) old new
      else hd s # replace (tl s) old new)"
  by pat_completeness auto
termination
  by (relation "measure (\<lambda>(s, old, new). length s)") auto

text \<open>The number of copies of \<open>c\<close> that a string starts with.\<close>

definition lead :: "'a \<Rightarrow> 'a list \<Rightarrow> nat" where
  "lead c xs = length (takeWhile (\<lambda>x. x = c) xs)"

text \<open>
  \<^verbatim>\<open>str.strip()\<close> removes leading and trailing whitespace. A \<open>char\<close> is a code point
  below 256; these are the ones Python's \<^verbatim>\<open>str.isspace\<close> accepts in that range.
\<close>

definition isspace :: "char \<Rightarrow> bool" where
  "isspace c = (of_char c \<in> {9, 10, 11, 12, 13, 28, 29, 30, 31, 32, 133, 160 :: nat})"

definition strip :: "string \<Rightarrow> string" where
  "strip s = rev (dropWhile isspace (rev (dropWhile isspace s)))"

text \<open>Decimal rendering: \<^verbatim>\<open>str(n)\<close> for \<open>n \<ge> 0\<close>, and the format \<^verbatim>\<open>{i:03d}\<close>.\<close>

definition digit_char :: "nat \<Rightarrow> char" where
  "digit_char d = char_of (48 + d)"

fun str_nat :: "nat \<Rightarrow> string" where
  "str_nat n = (if n < 10 then [digit_char n] else str_nat (n div 10) @ [digit_char (n mod 10)])"

definition format_03d :: "nat \<Rightarrow> string" where
  "format_03d i = replicate (3 - length (str_nat i)) (CHR ''0'') @ str_nat i"



text \<open>\<^verbatim>\<open>os.path.join(a, b)\<close> on a POSIX system.\<close>

definition path_join :: "string \<Rightarrow> string \<Rightarrow> string" where
  "path_join a b =
     (if prefix ''/'' b then b
      else if a = [] \<or> suffix ''/'' a then a @ b
      else a @ ''/'' @ b)"

section \<open>The media library and the backend\<close>

text \<open>
  MoviePy and the OpenAI client are not part of the repository. A clip object is
  identified by the way it was made: by a constructor of the library or by a method
  called on another clip. An argument that may be \<^verbatim>\<open>None\<close> in Python is an option.
\<close>

datatype clip =
    VideoFileClip string
  | AudioFileClip string
  | Clip_with_volume_scaled clip rat
  | Clip_volumex clip rat
  | Clip_subclipped clip rat rat
  | Clip_subclip clip rat rat
  | CompositeAudioClip "clip option list"
  | Clip_with_audio clip "clip option"
  | Clip_set_audio clip "clip option"

datatype content_part = Text string | Image_url string

datatype content = Str string | Parts "content_part list"

datatype message = Message string content

datatype chat_request =
  Chat_request string "rat option" "string option" "message list" "int option"

datatype speech_request = Speech_request string string string rat

text \<open>
  The calls that reach outside the program. \<open>New c\<close> is the call, constructor or
  method, that makes the clip \<open>c\<close>. \<open>Write_videofile\<close> carries the path, the two
  codecs, the temporary audio file and \<^verbatim>\<open>remove_temp\<close>.
\<close>

datatype call =
    Makedirs string
  | TemporaryDirectory
  | Cleanup string
  | New clip
  | Save_frame clip string rat
  | Write_videofile clip string string string string bool
  | Close clip
  | Read_file string
  | Chat_create chat_request
  | Speech_create speech_request
  | Stream_to_file speech_request string

text \<open>
  What the environment answers: which calls raise, which paths exist, which attributes
  an object has, the \<^verbatim>\<open>duration\<close> and \<^verbatim>\<open>audio\<close> attributes of a clip (\<open>None\<close> for
  Python's \<^verbatim>\<open>None\<close>), the directory names the operating system gives, the content of
  files, and the \<^verbatim>\<open>message.content\<close> of each choice of a completion.
\<close>

record world =
  fails :: "call \<Rightarrow> error option"
  path_exists :: "string \<Rightarrow> bool"
  hasattr :: "clip \<Rightarrow> string \<Rightarrow> bool"
  attr_duration :: "clip \<Rightarrow> rat option"
  attr_audio :: "clip \<Rightarrow> clip option"
  mkdtemp :: string
  gettempdir :: string
  dirname_abspath :: "string \<Rightarrow> string"
  file_bytes :: "string \<Rightarrow> string"
  b64encode :: "string \<Rightarrow> string"
  chat_choices :: "chat_request \<Rightarrow> string option list"
  openai_api_key :: "string option"

section \<open>Programs: state and exceptions\<close>

text \<open>
  The state is the list of the calls made so far, in order. A program returns a value
  or raises, and leaves a state.
\<close>

record state =
  trace :: "call list"

type_synonym ('a, 'z) prog = "'z state_scheme \<Rightarrow> (error + 'a) \<times> 'z state_scheme"

definition return :: "'a \<Rightarrow> ('a, 'z) prog" where
  "return x s = (Inr x, s)"

definition raise :: "error \<Rightarrow> ('a, 'z) prog" where
  "raise e s = (Inl e, s)"

definition bind :: "('a, 'z) prog \<Rightarrow> ('a \<Rightarrow> ('b, 'z) prog) \<Rightarrow> ('b, 'z) prog" where
  "bind m f s = (case m s of (Inl e, s') \<Rightarrow> (Inl e, s') | (Inr x, s') \<Rightarrow> f x s')"

text \<open>
  \<^verbatim>\<open>try: m finally: h\<close>: \<open>h\<close> runs however \<open>m\<close> ends; an exception of \<open>h\<close>
  replaces the outcome of \<open>m\<close>.
\<close>

definition try_finally :: "('a, 'z) prog \<Rightarrow> (unit, 'z) prog \<Rightarrow> ('a, 'z) prog" where
  "try_finally m h s =
     (case m s of (r, s') \<Rightarrow>
        (case h s' of (Inl e, s'') \<Rightarrow> (Inl e, s'') | (Inr u, s'') \<Rightarrow> (r, s'')))"

text \<open>\<^verbatim>\<open>try: m except Exception: pass\<close>\<close>

definition try_except_pass :: "(unit, 'z) prog \<Rightarrow> (unit, 'z) prog" where
  "try_except_pass m s = (case m s of (r, s') \<Rightarrow> (Inr (), s'))"

definition lib_call :: "world \<Rightarrow> call \<Rightarrow> (unit, 'z) prog" where
  "lib_call w c s =
     (case fails w c of
        Some e \<Rightarrow> (Inl e, s\<lparr>trace := trace s @ [c]\<rparr>)
      | None \<Rightarrow> (Inr (), s\<lparr>trace := trace s @ [c]\<rparr>))"

definition new :: "world \<Rightarrow> clip \<Rightarrow> (clip, 'z) prog" where
  "new w c = bind (lib_call w (New c)) (\<lambda>u. return c)"

definition close :: "world \<Rightarrow> clip option \<Rightarrow> (unit, 'z) prog" where
  "close w c = (case c of None \<Rightarrow> raise AttributeError | Some x \<Rightarrow> lib_call w (Close x))"

primrec map_prog :: "('a \<Rightarrow> ('b, 'z) prog) \<Rightarrow> 'a list \<Rightarrow> ('b list, 'z) prog" where
  "map_prog f [] = return []"
| "map_prog f (x # xs) = bind (f x) (\<lambda>y. bind (map_prog f xs) (\<lambda>ys. return (y # ys)))"

section \<open>\<^verbatim>\<open>genai.py\<close>\<close>

text \<open>
  \<^verbatim>\<open>self.client.chat.completions.create(...)\<close> followed by
  \<^verbatim>\<open>completion.choices[0].message.content or ""\<close>.
\<close>

definition create :: "world \<Rightarrow> chat_request \<Rightarrow> (string option list, 'z) prog" where
  "create w request = bind (lib_call w (Chat_create request)) (\<lambda>u. return (chat_choices w request))"

definition first_content :: "string option list \<Rightarrow> (string, 'z) prog" where
  "first_content choices =
     (case choices of
        [] \<Rightarrow> raise IndexError
      | content # rest \<Rightarrow> return (case content of None \<Rightarrow> [] | Some text \<Rightarrow> text))"

definition generate_text ::
  "world \<Rightarrow> string \<Rightarrow> string \<Rightarrow> string \<Rightarrow> string \<Rightarrow> rat \<Rightarrow> (string, 'z) prog" where
  "generate_text w prompt instructions model output_type temperature =
     bind (create w (Chat_request model (Some temperature) (Some output_type)
             [Message ''system'' (Str instructions), Message ''user'' (Str prompt)] None))
       (\<lambda>choices.
     bind (first_content choices) (\<lambda>response.
     return (replace (replace response ''```html'' []) ''```'' [])))"

definition encode_image :: "world \<Rightarrow> string \<Rightarrow> (string, 'z) prog" where
  "encode_image w image_path =
     bind (lib_call w (Read_file image_path)) (\<lambda>u. return (b64encode w (file_bytes w image_path)))"

text \<open>The argument \<^verbatim>\<open>image_paths\<close> is one path or a list of paths.\<close>

datatype image_paths = Path string | Paths "string list"

definition generate_image_description ::
  "world \<Rightarrow> image_paths \<Rightarrow> string \<Rightarrow> string \<Rightarrow> int \<Rightarrow> (string, 'z) prog" where
  "generate_image_description w image_paths instructions model max_tokens =
     (let image_paths = (case image_paths of Path p \<Rightarrow> [p] | Paths ps \<Rightarrow> ps) in
      bind (map_prog (\<lambda>p. bind (encode_image w p) (\<lambda>b. return (''data:image/jpeg;base64,'' @ b)))
              image_paths) (\<lambda>image_urls.
      bind (create w (Chat_request model None None
              [Message ''user'' (Parts (Text instructions # map Image_url image_urls))]
              (Some max_tokens))) (\<lambda>choices.
      bind (first_content choices) (\<lambda>response.
      return (replace (replace response ''```html'' []) ''```'' [])))))"

text \<open>
  The sampling times of \<^verbatim>\<open>generate_video_description\<close>:
  \<^verbatim>\<open>[0.0]\<close> if \<^verbatim>\<open>n_frames <= 1\<close>, else
  \<^verbatim>\<open>[i * duration / (n_frames - 1) for i in range(n_frames)]\<close>.
\<close>

definition timestamps :: "rat \<Rightarrow> int \<Rightarrow> rat list" where
  "timestamps duration n_frames =
     (if n_frames \<le> 1 then [0]
      else map (\<lambda>i. of_nat i * duration / of_int (n_frames - 1)) [0..<nat n_frames])"

definition frame_path :: "string \<Rightarrow> nat \<Rightarrow> string" where
  "frame_path temp_dir i = path_join temp_dir (''frame_'' @ format_03d i @ ''.jpg'')"

text \<open>The loop \<^verbatim>\<open>for i, t in enumerate(timestamps)\<close>, with the list \<^verbatim>\<open>image_paths\<close> it fills.\<close>

primrec save_frames ::
  "world \<Rightarrow> clip \<Rightarrow> string \<Rightarrow> (nat \<times> rat) list \<Rightarrow> string list \<Rightarrow> (string list, 'z) prog" where
  "save_frames w video temp_dir [] image_paths = return image_paths"
| "save_frames w video temp_dir (it # rest) image_paths =
     bind (lib_call w (Save_frame video (frame_path temp_dir (fst it)) (snd it))) (\<lambda>u.
     save_frames w video temp_dir rest (image_paths @ [frame_path temp_dir (fst it)]))"

text \<open>\<^verbatim>\<open>with tempfile.TemporaryDirectory() as temp_dir: body\<close>\<close>

definition with_TemporaryDirectory :: "world \<Rightarrow> (string \<Rightarrow> ('a, 'z) prog) \<Rightarrow> ('a, 'z) prog" where
  "with_TemporaryDirectory w body =
     bind (lib_call w TemporaryDirectory) (\<lambda>u.
     try_finally (body (mkdtemp w)) (lib_call w (Cleanup (mkdtemp w))))"

definition generate_video_description ::
  "world \<Rightarrow> string \<Rightarrow> string \<Rightarrow> string \<Rightarrow> int \<Rightarrow> (string, 'z) prog" where
  "generate_video_description w video_path instructions model n_frames =
     (if \<not> path_exists w video_path
      then raise (FileNotFoundError (''Video not found: '' @ video_path))
      else with_TemporaryDirectory w (\<lambda>temp_dir.
        bind (new w (VideoFileClip video_path)) (\<lambda>video.
        bind (try_finally
               (let duration = (case attr_duration w video of
                                    None \<Rightarrow> 0
                                  | Some d \<Rightarrow> if d \<noteq> 0 then d else 0)
                in if duration \<le> 0
                   then raise (ValueError ''Video duration is 0; cannot sample frames.'')
                   else save_frames w video temp_dir
                          (enumerate 0 (timestamps duration n_frames)) [])
               (lib_call w (Close video))) (\<lambda>image_paths.
        generate_image_description w (Paths image_paths) instructions model 1000))))"

definition generate_audio ::
  "world \<Rightarrow> string \<Rightarrow> string \<Rightarrow> string \<Rightarrow> string \<Rightarrow> rat \<Rightarrow> (bool, 'z) prog" where
  "generate_audio w text file_path model voice speed =
     (if text = [] \<or> strip text = []
      then raise (ValueError ''Cannot generate audio from empty text.'')
      else bind (lib_call w (Speech_create (Speech_request model voice text speed))) (\<lambda>u.
           bind (lib_call w (Stream_to_file (Speech_request model voice text speed) file_path))
             (\<lambda>u.
           return True)))"

section \<open>\<^verbatim>\<open>utils.py\<close>\<close>

text \<open>
  \<^verbatim>\<open>_jarvis()\<close> makes the client from the key that \<^verbatim>\<open>_get_secret\<close> finds, or raises;
  the client holds nothing but the key, so the cache of \<^verbatim>\<open>lru_cache\<close> is not visible.
\<close>

definition jarvis :: "world \<Rightarrow> (string, 'z) prog" where
  "jarvis w =
     (case openai_api_key w of
        None \<Rightarrow> raise RuntimeError
      | Some key \<Rightarrow> if key = [] then raise RuntimeError else return key)"



definition generate_voiceover_audio ::
  "world \<Rightarrow> string \<Rightarrow> string \<Rightarrow> string \<Rightarrow> rat \<Rightarrow> (bool, 'z) prog" where
  "generate_voiceover_audio w voiceover_text file_path voice_name speed =
     bind (jarvis w) (\<lambda>key.
     generate_audio w voiceover_text file_path ''gpt-4o-mini-tts'' voice_name speed)"

definition scale_volume :: "world \<Rightarrow> clip option \<Rightarrow> rat \<Rightarrow> (clip option, 'z) prog" where
  "scale_volume w audio_clip volume =
     (if volume = 1 \<or> audio_clip = None then return audio_clip
      else case audio_clip of
        None \<Rightarrow> return audio_clip
      | Some c \<Rightarrow>
          if hasattr w c ''with_volume_scaled''
          then bind (new w (Clip_with_volume_scaled c volume)) (\<lambda>r. return (Some r))
          else if hasattr w c ''volumex''
          then bind (new w (Clip_volumex c volume)) (\<lambda>r. return (Some r))
          else return audio_clip)"

definition subclip :: "world \<Rightarrow> clip option \<Rightarrow> rat \<Rightarrow> (clip option, 'z) prog" where
  "subclip w audio_clip t_end =
     (case audio_clip of
        None \<Rightarrow> return None
      | Some c \<Rightarrow>
          if hasattr w c ''subclipped''
          then bind (new w (Clip_subclipped c 0 t_end)) (\<lambda>r. return (Some r))
          else bind (new w (Clip_subclip c 0 t_end)) (\<lambda>r. return (Some r)))"

definition set_audio :: "world \<Rightarrow> clip \<Rightarrow> clip option \<Rightarrow> (clip, 'z) prog" where
  "set_audio w video_clip audio_clip =
     (if hasattr w video_clip ''with_audio''
      then new w (Clip_with_audio video_clip audio_clip)
      else new w (Clip_set_audio video_clip audio_clip))"

text \<open>
  The local variables of \<^verbatim>\<open>merge_video_with_audio\<close> that its \<^verbatim>\<open>finally\<close> block reads:
  \<open>added_audio_clip\<close> is rebound in the \<^verbatim>\<open>try\<close> block, and \<open>final_clip\<close> is unbound
  (\<open>None\<close>) until \<^verbatim>\<open>_set_audio\<close> has returned.
\<close>

record merge_frame = state +
  added_audio_clip :: "clip option"
  final_clip :: "clip option"

text \<open>The \<^verbatim>\<open>try\<close> block.\<close>

definition merge_try ::
  "world \<Rightarrow> clip \<Rightarrow> string \<Rightarrow> string \<Rightarrow> rat \<Rightarrow> rat
     \<Rightarrow> (string, 'z merge_frame_ext) prog" where
  "merge_try w video_clip merged_path tmp_audiofile video_volume audio_volume =
     bind (scale_volume w (attr_audio w video_clip) video_volume) (\<lambda>original_audio.
     bind (\<lambda>s. scale_volume w (added_audio_clip s) audio_volume s) (\<lambda>scaled.
     bind (\<lambda>s. return () (s\<lparr>added_audio_clip := scaled\<rparr>)) (\<lambda>u.
     bind (case scaled of
             None \<Rightarrow> raise AttributeError
           | Some a \<Rightarrow>
               (case (attr_duration w a, attr_duration w video_clip) of
                  (Some added_duration, Some video_duration) \<Rightarrow>
                    if video_duration < added_duration
                    then bind (subclip w scaled video_duration) (\<lambda>trimmed.
                         bind (\<lambda>s. return () (s\<lparr>added_audio_clip := trimmed\<rparr>)) (\<lambda>u.
                         return trimmed))
                    else return scaled
                | _ \<Rightarrow> raise TypeError)) (\<lambda>added.
     bind (if original_audio \<noteq> None
           then bind (new w (CompositeAudioClip [original_audio, added])) (\<lambda>r. return (Some r))
           else return added) (\<lambda>final_audio.
     bind (set_audio w video_clip final_audio) (\<lambda>final.
     bind (\<lambda>s. return () (s\<lparr>final_clip := Some final\<rparr>)) (\<lambda>u.
     bind (lib_call w (Write_videofile final merged_path ''libx264'' ''aac'' tmp_audiofile True))
       (\<lambda>u.
     return merged_path))))))))"

text \<open>The \<^verbatim>\<open>finally\<close> block: three \<^verbatim>\<open>close()\<close>, each in its own \<^verbatim>\<open>try/except\<close>.\<close>

definition merge_finally :: "world \<Rightarrow> clip \<Rightarrow> (unit, 'z merge_frame_ext) prog" where
  "merge_finally w video_clip =
     bind (try_except_pass (\<lambda>s. close w (added_audio_clip s) s)) (\<lambda>u.
     bind (try_except_pass (close w (Some video_clip))) (\<lambda>u.
     try_except_pass
       (\<lambda>s. (case final_clip s of None \<Rightarrow> raise NameError | Some c \<Rightarrow> close w (Some c)) s)))"

definition merge_run ::
  "world \<Rightarrow> string \<Rightarrow> string \<Rightarrow> string \<Rightarrow> rat \<Rightarrow> rat \<Rightarrow> (string, 'z merge_frame_ext) prog" where
  "merge_run w video_path audio_path merged_path video_volume audio_volume =
     (let output_dir = dirname_abspath w merged_path in
      bind (if output_dir \<noteq> [] \<and> \<not> path_exists w output_dir
            then lib_call w (Makedirs output_dir) else return ()) (\<lambda>u.
      let tmp_audiofile = path_join (gettempdir w) ''voxover_temp_audio.m4a'' in
      bind (new w (VideoFileClip video_path)) (\<lambda>video_clip.
      bind (new w (AudioFileClip audio_path)) (\<lambda>added.
      bind (\<lambda>s. return () (s\<lparr>added_audio_clip := Some added\<rparr>)) (\<lambda>u.
      try_finally
        (merge_try w video_clip merged_path tmp_audiofile video_volume audio_volume)
        (merge_finally w video_clip))))))"

text \<open>
  The function itself: it starts from the calls made so far, with its own local
  variables, and leaves the calls made.
\<close>

definition merge_video_with_audio ::
  "world \<Rightarrow> string \<Rightarrow> string \<Rightarrow> string \<Rightarrow> rat \<Rightarrow> rat \<Rightarrow> call list
     \<Rightarrow> (error + string) \<times> call list" where
  "merge_video_with_audio w video_path audio_path merged_path video_volume audio_volume tr =
     (case merge_run w video_path audio_path merged_path video_volume audio_volume
             \<lparr>trace = tr, added_audio_clip = None, final_clip = None\<rparr>
      of (r, s) \<Rightarrow> (r, trace s))"

text \<open>
  The objects the three compatibility helpers make when the library call succeeds:
  what \<^verbatim>\<open>_scale_volume\<close> returns for a clip, with the calls it makes, what
  \<^verbatim>\<open>_subclip\<close> returns and what \<^verbatim>\<open>_set_audio\<close> returns.
\<close>

definition scaled_clip :: "world \<Rightarrow> clip \<Rightarrow> rat \<Rightarrow> clip" where
  "scaled_clip w c volume =
     (if volume = 1 then c
      else if hasattr w c ''with_volume_scaled'' then Clip_with_volume_scaled c volume
      else if hasattr w c ''volumex'' then Clip_volumex c volume
      else c)"

definition scaling_calls :: "world \<Rightarrow> clip \<Rightarrow> rat \<Rightarrow> call list" where
  "scaling_calls w c volume =
     (if volume = 1 then []
      else if hasattr w c ''with_volume_scaled'' then [New (Clip_with_volume_scaled c volume)]
      else if hasattr w c ''volumex'' then [New (Clip_volumex c volume)]
      else [])"

definition trimmed_clip :: "world \<Rightarrow> clip \<Rightarrow> rat \<Rightarrow> clip" where
  "trimmed_clip w c t_end =
     (if hasattr w c ''subclipped'' then Clip_subclipped c 0 t_end else Clip_subclip c 0 t_end)"

definition attached_clip :: "world \<Rightarrow> clip \<Rightarrow> clip option \<Rightarrow> clip" where
  "attached_clip w video_clip audio_clip =
     (if hasattr w video_clip ''with_audio'' then Clip_with_audio video_clip audio_clip
      else Clip_set_audio video_clip audio_clip)"

section \<open>Observations on the calls made\<close>

text \<open>The frame files written: the path and the time of every \<^verbatim>\<open>save_frame\<close> call.\<close>

definition sampled :: "call list \<Rightarrow> (string \<times> rat) list" where
  "sampled tr = concat (map (\<lambda>c. case c of Save_frame v p t \<Rightarrow> [(p, t)] | _ \<Rightarrow> []) tr)"

text \<open>The clips written with \<^verbatim>\<open>write_videofile\<close>, and the clips \<^verbatim>\<open>close()\<close> was called on.\<close>

definition written :: "call list \<Rightarrow> clip list" where
  "written tr = concat (map (\<lambda>c. case c of Write_videofile v p c1 c2 t r \<Rightarrow> [v] | _ \<Rightarrow> []) tr)"

definition closed :: "call list \<Rightarrow> clip list" where
  "closed tr = concat (map (\<lambda>c. case c of Close v \<Rightarrow> [v] | _ \<Rightarrow> []) tr)"

text \<open>
  What MoviePy documents about durations, as a property an environment may have: scaling
  the volume keeps the duration, the part of a clip from 0 to \<open>t\<close> lasts \<open>t\<close>, and a
  composite of two tracks that start at 0 lasts as long as the longer one.
\<close>

definition moviepy_durations :: "world \<Rightarrow> bool" where
  "moviepy_durations w \<longleftrightarrow>
     (\<forall>c v. attr_duration w (Clip_with_volume_scaled c v) = attr_duration w c)
     \<and> (\<forall>c v. attr_duration w (Clip_volumex c v) = attr_duration w c)
     \<and> (\<forall>c t. attr_duration w (Clip_subclipped c 0 t) = Some t)
     \<and> (\<forall>c t. attr_duration w (Clip_subclip c 0 t) = Some t)
     \<and> (\<forall>a b x y. attr_duration w a = Some x \<longrightarrow> attr_duration w b = Some y \<longrightarrow>
            attr_duration w (CompositeAudioClip [Some a, Some b]) = Some (max x y))"

section \<open>Example environments\<close>

text \<open>
  An installation whose clip objects have none of the methods the helpers look for,
  and in which no call fails.
\<close>

definition world_plain :: world where
  "world_plain =
     \<lparr>fails = (\<lambda>c. None), path_exists = (\<lambda>p. True), hasattr = (\<lambda>c a. False),
      attr_duration = (\<lambda>c. Some 60), attr_audio = (\<lambda>c. None),
      mkdtemp = ''/tmp/tmpabc'', gettempdir = ''/tmp'', dirname_abspath = (\<lambda>p. ''/out''),
      file_bytes = (\<lambda>p. []), b64encode = (\<lambda>b. b),
      chat_choices = (\<lambda>r. [Some ''```html<p>hi</p>```'']),
      openai_api_key = Some ''key''\<rparr>"

text \<open>
  A MoviePy 2 installation in which no call fails: a video lasts 60 seconds and has an
  audio track of its own, the file \<^verbatim>\<open>voice.mp3\<close> lasts 75 seconds, and durations are
  computed as MoviePy documents.
\<close>

fun nominal_duration :: "clip \<Rightarrow> rat option" where
  "nominal_duration (VideoFileClip p) = Some 60"
| "nominal_duration (AudioFileClip p) = (if p = ''voice.mp3'' then Some 75 else Some 60)"
| "nominal_duration (Clip_with_volume_scaled c v) = nominal_duration c"
| "nominal_duration (Clip_volumex c v) = nominal_duration c"
| "nominal_duration (Clip_subclipped c t_start t_end) = Some (t_end - t_start)"
| "nominal_duration (Clip_subclip c t_start t_end) = Some (t_end - t_start)"
| "nominal_duration (CompositeAudioClip [Some a, Some b]) =
     (case (nominal_duration a, nominal_duration b) of
        (Some x, Some y) \<Rightarrow> Some (max x y)
      | _ \<Rightarrow> None)"
| "nominal_duration (CompositeAudioClip cs) = None"
| "nominal_duration (Clip_with_audio v a) = nominal_duration v"
| "nominal_duration (Clip_set_audio v a) = nominal_duration v"

definition world_moviepy2 :: world where
  "world_moviepy2 =
     \<lparr>fails = (\<lambda>c. None), path_exists = (\<lambda>p. True),
      hasattr = (\<lambda>c a. a \<in> {''with_volume_scaled'', ''subclipped'', ''with_audio''}),
      attr_duration = nominal_duration,
      attr_audio = (\<lambda>c. case c of VideoFileClip p \<Rightarrow> Some (AudioFileClip p) | _ \<Rightarrow> None),
      mkdtemp = ''/tmp/tmpabc'', gettempdir = ''/tmp'', dirname_abspath = (\<lambda>p. ''/out''),
      file_bytes = (\<lambda>p. []), b64encode = (\<lambda>b. b),
      chat_choices = (\<lambda>r. [Some ''A short narration.'']),
      openai_api_key = Some ''key''\<rparr>"


section \<open>Basic facts\<close>

declare replace.simps [simp del]

lemma bind_return [simp]: "bind (return x) f = f x"
  by (rule ext) (simp add: bind_def return_def)

lemma bind_raise [simp]: "bind (raise e) f = raise e"
  by (rule ext) (simp add: bind_def raise_def)

lemma replace_Nil: "old \<noteq> [] \<Longrightarrow> replace [] old repl = []"
  by (subst replace.simps) simp

lemma replace_prefix:
  "old \<noteq> [] \<Longrightarrow> prefix old s \<Longrightarrow>
   replace s old repl = repl @ replace (drop (length old) s) old repl"
  by (subst replace.simps) auto

lemma replace_Cons:
  "old \<noteq> [] \<Longrightarrow> \<not> prefix old (x # xs) \<Longrightarrow> replace (x # xs) old repl = x # replace xs old repl"
  by (subst replace.simps) (simp del: prefix_Cons Cons_prefix_Cons)

section \<open>Removing a pattern made of one repeated character\<close>

text \<open>
  Removing \<open>ccc\<close> from the left leaves, of every run of \<open>c\<close>, at most two, and the
  characters that separate two runs stay.
\<close>

lemma lead_Nil: "lead c [] = 0"
  by (simp add: lead_def)

lemma lead_Cons: "lead c (x # xs) = (if x = c then Suc (lead c xs) else 0)"
  by (simp add: lead_def)

lemma prefix3_lead: "prefix [c, c, c] xs \<longleftrightarrow> 3 \<le> lead c xs"
proof (cases xs)
  case Nil
  then show ?thesis by (simp add: lead_Nil)
next
  case (Cons x1 t1)
  show ?thesis
  proof (cases t1)
    case Nil
    with Cons show ?thesis by (simp add: lead_Nil lead_Cons)
  next
    case (Cons x2 t2)
    with \<open>xs = x1 # t1\<close> show ?thesis
      by (cases t2) (auto simp add: lead_Nil lead_Cons)
  qed
qed

lemma prefix3_drop: "prefix [c, c, c] xs \<Longrightarrow> lead c xs = 3 + lead c (drop 3 xs)"
  by (auto simp: prefix_def lead_Cons)

lemma replace_fence_drop:
  "prefix [c, c, c] s \<Longrightarrow> replace s [c, c, c] [] = replace (drop 3 s) [c, c, c] []"
  using replace_prefix [of "[c, c, c]" s "[]"] by (simp add: numeral_3_eq_3)

lemma lead_replace: "lead c (replace s [c, c, c] []) = lead c s mod 3"
proof (induction s "[c, c, c]" "[] :: string" rule: replace.induct)
  case (1 s)
  show ?case
  proof (cases "s = []")
    case True
    then show ?thesis by (simp add: replace_Nil lead_Nil)
  next
    case ne: False
    show ?thesis
    proof (cases "prefix [c, c, c] s")
      case True
      have len: "length [c, c, c] = 3" by simp
      from 1(1) ne True
      have "lead c (replace (drop (length [c, c, c]) s) [c, c, c] []) =
            lead c (drop (length [c, c, c]) s) mod 3"
        by blast
      then have IH: "lead c (replace (drop 3 s) [c, c, c] []) = lead c (drop 3 s) mod 3"
        by (simp only: len)
      have "lead c (replace s [c, c, c] []) = lead c (replace (drop 3 s) [c, c, c] [])"
        by (simp only: replace_fence_drop [OF True])
      also have "\<dots> = lead c (drop 3 s) mod 3" by (rule IH)
      also have "\<dots> = (3 + lead c (drop 3 s)) mod 3" by simp
      also have "\<dots> = lead c s mod 3" by (simp only: prefix3_drop [OF True])
      finally show ?thesis .
    next
      case False
      then have lt: "lead c s < 3" by (simp add: prefix3_lead)
      from ne obtain x xs where s: "s = x # xs" by (cases s) auto
      from False ne 1(2) s have IH: "lead c (replace xs [c, c, c] []) = lead c xs mod 3" by simp
      from False s have eq: "replace s [c, c, c] [] = x # replace xs [c, c, c] []"
        by (simp add: replace_Cons del: prefix_Cons Cons_prefix_Cons)
      from lt have m: "lead c s mod 3 = lead c s" by simp
      show ?thesis
      proof (cases "x = c")
        case True
        with lt s have "lead c xs < 3" by (simp add: lead_Cons)
        then have "lead c xs mod 3 = lead c xs" by simp
        with IH have "lead c (x # replace xs [c, c, c] []) = lead c (x # xs)"
          by (simp only: lead_Cons)
        with eq s m show ?thesis by simp
      next
        case False
        then have "lead c (x # replace xs [c, c, c] []) = 0" and "lead c (x # xs) = 0"
          by (simp_all add: lead_Cons)
        with eq s show ?thesis by simp
      qed
    qed
  qed
qed

lemma no_fence_replace: "\<not> sublist [c, c, c] (replace s [c, c, c] [])"
proof (induction s "[c, c, c]" "[] :: string" rule: replace.induct)
  case (1 s)
  show ?case
  proof (cases "s = []")
    case True
    then show ?thesis by (simp add: replace_Nil)
  next
    case ne: False
    show ?thesis
    proof (cases "prefix [c, c, c] s")
      case True
      with ne 1(1) have "\<not> sublist [c, c, c] (replace (drop 3 s) [c, c, c] [])"
        by (simp add: numeral_3_eq_3)
      moreover have "replace s [c, c, c] [] = replace (drop 3 s) [c, c, c] []"
        by (rule replace_fence_drop [OF True])
      ultimately show ?thesis by metis
    next
      case False
      then have lt: "lead c s < 3" by (simp add: prefix3_lead)
      from ne obtain x xs where s: "s = x # xs" by (cases s) auto
      from False ne 1(2) s have IH: "\<not> sublist [c, c, c] (replace xs [c, c, c] [])" by simp
      from False s have eq: "replace s [c, c, c] [] = x # replace xs [c, c, c] []"
        by (simp add: replace_Cons del: prefix_Cons Cons_prefix_Cons)
      have "\<not> prefix [c, c, c] (x # replace xs [c, c, c] [])"
      proof
        assume "prefix [c, c, c] (x # replace xs [c, c, c] [])"
        then have "3 \<le> lead c (x # replace xs [c, c, c] [])" by (simp only: prefix3_lead)
        then have "x = c" and "2 \<le> lead c (replace xs [c, c, c] [])"
          by (auto simp: lead_Cons split: if_splits)
        then have "2 \<le> lead c xs mod 3" by (simp add: lead_replace)
        then have "2 \<le> lead c xs" by (meson le_trans mod_less_eq_dividend)
        with \<open>x = c\<close> s lt show False by (simp add: lead_Cons)
      qed
      with IH eq show ?thesis by (simp add: sublist_Cons_right)
    qed
  qed
qed

lemma strip_fences_clean:
  "\<not> sublist ''```'' (replace (replace response ''```html'' []) ''```'' [])
   \<and> \<not> sublist ''```html'' (replace (replace response ''```html'' []) ''```'' [])"
proof -
  let ?r = "replace (replace response ''```html'' []) ''```'' []"
  have a: "\<not> sublist ''```'' ?r" by (rule no_fence_replace)
  have "sublist ''```'' ''```html''" by (rule prefix_imp_sublist) simp
  then have "sublist ''```html'' ?r \<Longrightarrow> sublist ''```'' ?r"
    by (rule sublist_order.order.trans)
  with a show ?thesis by blast
qed

section \<open>The frame sampler\<close>

lemma sampled_Nil [simp]: "sampled [] = []"
  by (simp add: sampled_def)

lemma sampled_append [simp]: "sampled (a @ b) = sampled a @ sampled b"
  by (simp add: sampled_def)

lemma sampled_single:
  "sampled [c] = (case c of Save_frame v p t \<Rightarrow> [(p, t)] | _ \<Rightarrow> [])"
  by (simp add: sampled_def)

lemma lib_call_ok: "fails w c = None \<Longrightarrow> lib_call w c s = (Inr (), s\<lparr>trace := trace s @ [c]\<rparr>)"
  by (simp add: lib_call_def)

lemma lib_call_trace: "lib_call w c s = (r, s') \<Longrightarrow> trace s' = trace s @ [c]"
  by (auto simp: lib_call_def split: option.splits)

text \<open>
  Programs that leave an observation \<open>g\<close> on the calls as it was: \<open>g\<close> gives, for each
  call, what is observed of it.
\<close>

lemma bind_keeps:
  assumes "bind m f s = (r, s')"
    and "\<And>r1 s1. m s = (r1, s1) \<Longrightarrow> concat (map g (trace s1)) = concat (map g (trace s))"
    and "\<And>x s1 r2 s2. f x s1 = (r2, s2) \<Longrightarrow> concat (map g (trace s2)) = concat (map g (trace s1))"
  shows "concat (map g (trace s')) = concat (map g (trace s))"
proof (cases "m s")
  case (Pair r1 s1)
  show ?thesis
  proof (cases r1)
    case (Inl e)
    with Pair assms(1) have "s' = s1" by (simp add: bind_def)
    with assms(2) [OF Pair] show ?thesis by simp
  next
    case (Inr x)
    with Pair assms(1) have "f x s1 = (r, s')" by (simp add: bind_def)
    from assms(3) [OF this] assms(2) [OF Pair] show ?thesis by simp
  qed
qed

lemma return_keeps:
  "return x s = (r, s') \<Longrightarrow> concat (map g (trace s')) = concat (map g (trace s))"
  by (auto simp: return_def)

lemma raise_keeps:
  "raise e s = (r, s') \<Longrightarrow> concat (map g (trace s')) = concat (map g (trace s))"
  by (auto simp: raise_def)

lemma lib_call_keeps:
  "lib_call w c s = (r, s') \<Longrightarrow> g c = [] \<Longrightarrow>
   concat (map g (trace s')) = concat (map g (trace s))"
  by (drule lib_call_trace) simp

lemma encode_image_keeps:
  assumes "\<And>p. g (Read_file p) = []"
  shows "encode_image w p s = (r, s') \<Longrightarrow> concat (map g (trace s')) = concat (map g (trace s))"
  unfolding encode_image_def
  by (erule bind_keeps) (auto elim: lib_call_keeps return_keeps simp: assms)

lemma map_prog_keeps:
  assumes "\<And>x s r s'. f x s = (r, s') \<Longrightarrow> concat (map g (trace s')) = concat (map g (trace s))"
  shows "map_prog f xs s = (r, s') \<Longrightarrow> concat (map g (trace s')) = concat (map g (trace s))"
proof (induction xs arbitrary: s r s')
  case Nil
  then show ?case by (simp add: return_keeps)
next
  case (Cons x xs)
  from Cons.prems show ?case
    unfolding map_prog.simps
    by (rule bind_keeps) (auto elim!: assms bind_keeps Cons.IH return_keeps)
qed

lemma create_keeps:
  assumes "\<And>q. g (Chat_create q) = []"
  shows "create w req s = (r, s') \<Longrightarrow> concat (map g (trace s')) = concat (map g (trace s))"
  unfolding create_def
  by (erule bind_keeps) (auto elim: lib_call_keeps return_keeps simp: assms)

lemma first_content_keeps:
  "first_content cs s = (r, s') \<Longrightarrow> concat (map g (trace s')) = concat (map g (trace s))"
  by (auto simp: first_content_def return_def raise_def split: list.splits)

lemma generate_image_description_keeps:
  assumes "\<And>p. g (Read_file p) = []" and "\<And>q. g (Chat_create q) = []"
  shows "generate_image_description w ps i m k s = (r, s') \<Longrightarrow>
         concat (map g (trace s')) = concat (map g (trace s))"
  unfolding generate_image_description_def Let_def
  apply (erule bind_keeps)
   apply (erule map_prog_keeps [rotated])
   apply (erule bind_keeps)
    apply (erule encode_image_keeps [where g = g, rotated])
    apply (rule assms(1))
   apply (erule return_keeps)
  apply (erule bind_keeps)
   apply (erule create_keeps [where g = g, rotated])
   apply (rule assms(2))
  apply (erule bind_keeps)
   apply (erule first_content_keeps)
  apply (erule return_keeps)
  done

lemma generate_image_description_sampled:
  "generate_image_description w ps i m k s = (r, s') \<Longrightarrow> sampled (trace s') = sampled (trace s)"
  unfolding sampled_def by (erule generate_image_description_keeps [rotated 2]) simp_all

lemma save_frames_ok:
  assumes "\<And>p t. fails w (Save_frame video p t) = None"
  shows "save_frames w video temp_dir its acc s =
         (Inr (acc @ map (\<lambda>it. frame_path temp_dir (fst it)) its),
          s\<lparr>trace := trace s @ map (\<lambda>it. Save_frame video (frame_path temp_dir (fst it)) (snd it)) its\<rparr>)"
proof (induction its arbitrary: acc s)
  case Nil
  show ?case by (simp add: return_def)
next
  case (Cons it its)
  show ?case
    by (simp add: bind_def lib_call_ok [OF assms] Cons.IH)
qed

lemma sampled_frames:
  "sampled (map (\<lambda>it. Save_frame video (frame_path temp_dir (fst it)) (snd it)) its)
   = map (\<lambda>it. (frame_path temp_dir (fst it), snd it)) its"
  by (induction its) (simp_all add: sampled_def)



lemma enumerate_frames:
  "map (\<lambda>it. (frame_path td (fst it), snd it)) (enumerate 0 ts)
   = map (\<lambda>i. (frame_path td i, ts ! i)) [0..<length ts]"
proof (rule nth_equalityI)
  show "length (map (\<lambda>it. (frame_path td (fst it), snd it)) (enumerate 0 ts))
        = length (map (\<lambda>i. (frame_path td i, ts ! i)) [0..<length ts])"
    by simp
next
  fix i
  assume "i < length (map (\<lambda>it. (frame_path td (fst it), snd it)) (enumerate 0 ts))"
  then have "i < length ts" by simp
  then show "map (\<lambda>it. (frame_path td (fst it), snd it)) (enumerate 0 ts) ! i
             = map (\<lambda>i. (frame_path td i, ts ! i)) [0..<length ts] ! i"
    by (simp add: nth_enumerate_eq)
qed

lemma sample_video:
  assumes "attr_duration w video = Some D" and "0 < D"
    and "\<And>p t. fails w (Save_frame video p t) = None"
    and "try_finally
           (let duration = (case attr_duration w video of None \<Rightarrow> 0 | Some d \<Rightarrow> if d \<noteq> 0 then d else 0)
            in if duration \<le> 0
               then raise (ValueError ''Video duration is 0; cannot sample frames.'')
               else save_frames w video td (enumerate 0 (timestamps duration N)) [])
           (lib_call w (Close video)) s = (r, s')"
  shows "sampled (trace s') = sampled (trace s) @ map (\<lambda>i. (frame_path td i, timestamps D N ! i)) [0..<length (timestamps D N)]"
proof -
  let ?its = "enumerate 0 (timestamps D N)"
  let ?s3 = "s\<lparr>trace := trace s @ map (\<lambda>it. Save_frame video (frame_path td (fst it)) (snd it)) ?its\<rparr>"
  obtain r4 s4 where c: "lib_call w (Close video) ?s3 = (r4, s4)" by (cases "lib_call w (Close video) ?s3")
  from assms(1,2,4) have "try_finally (save_frames w video td ?its []) (lib_call w (Close video)) s = (r, s')"
    by (simp add: Let_def)
  with c have "s' = s4"
    by (cases r4) (simp_all add: try_finally_def save_frames_ok [OF assms(3)])
  moreover from lib_call_trace [OF c] have "trace s4 = trace ?s3 @ [Close video]" .
  ultimately show ?thesis
    by (simp add: sampled_frames sampled_single enumerate_frames)
qed


lemma frames_written:
  assumes "path_exists w video_path"
    and "attr_duration w (VideoFileClip video_path) = Some D" and "0 < D"
    and "fails w TemporaryDirectory = None"
    and "fails w (New (VideoFileClip video_path)) = None"
    and "\<And>p t. fails w (Save_frame (VideoFileClip video_path) p t) = None"
  shows "sampled (trace (snd (generate_video_description w video_path instructions model N s)))
         = sampled (trace s)
           @ map (\<lambda>i. (frame_path (mkdtemp w) i, timestamps D N ! i)) [0..<length (timestamps D N)]"
proof -
  let ?V = "VideoFileClip video_path"
  let ?new = "map (\<lambda>i. (frame_path (mkdtemp w) i, timestamps D N ! i)) [0..<length (timestamps D N)]"
  let ?s1 = "s\<lparr>trace := trace s @ [TemporaryDirectory]\<rparr>"
  let ?s2 = "?s1\<lparr>trace := trace ?s1 @ [New ?V]\<rparr>"
  let ?sample = "try_finally
           (let duration = (case attr_duration w ?V of None \<Rightarrow> 0 | Some d \<Rightarrow> if d \<noteq> 0 then d else 0)
            in if duration \<le> 0
               then raise (ValueError ''Video duration is 0; cannot sample frames.'')
               else save_frames w ?V (mkdtemp w) (enumerate 0 (timestamps duration N)) [])
           (lib_call w (Close ?V))"
  let ?body = "bind ?sample
     (\<lambda>image_paths. generate_image_description w (Paths image_paths) instructions model 1000)"
  obtain r3 s3 where sample: "?sample ?s2 = (r3, s3)" by (cases "?sample ?s2")
  have s3: "sampled (trace s3) = sampled (trace s) @ ?new"
    using sample_video [OF assms(2,3,6) sample] by (simp add: sampled_def)
  obtain r4 s4 where body: "?body ?s2 = (r4, s4)" by (cases "?body ?s2")
  have s4: "sampled (trace s4) = sampled (trace s3)"
  proof (cases r3)
    case (Inl e)
    with sample body show ?thesis by (simp add: bind_def)
  next
    case (Inr paths)
    with sample body
    have "generate_image_description w (Paths paths) instructions model 1000 s3 = (r4, s4)"
      by (simp add: bind_def)
    then show ?thesis by (rule generate_image_description_sampled)
  qed
  obtain r5 s5 where cl: "lib_call w (Cleanup (mkdtemp w)) s4 = (r5, s5)"
    by (cases "lib_call w (Cleanup (mkdtemp w)) s4")
  from lib_call_trace [OF cl] have s5: "sampled (trace s5) = sampled (trace s4)"
    by (simp add: sampled_single)
  have "generate_video_description w video_path instructions model N s
        = (case r5 of Inl e \<Rightarrow> Inl e | Inr u \<Rightarrow> r4, s5)"
    using assms(1) body cl
    by (cases r5) (simp_all add: generate_video_description_def with_TemporaryDirectory_def
        bind_def new_def lib_call_ok [OF assms(4)] lib_call_ok [OF assms(5)] try_finally_def
        return_def)
  then show ?thesis using s3 s4 s5 by simp
qed

lemma rejected_early:
  assumes "attr_duration w (VideoFileClip video_path) = None
           \<or> (\<exists>d. attr_duration w (VideoFileClip video_path) = Some d \<and> d \<le> 0)"
  shows "(\<exists>e. fst (generate_video_description w video_path instructions model N s) = Inl e)
         \<and> sampled (trace (snd (generate_video_description w video_path instructions model N s)))
             = sampled (trace s)"
  using assms
  by (auto simp: generate_video_description_def with_TemporaryDirectory_def bind_def
      try_finally_def new_def lib_call_def raise_def return_def Let_def sampled_def
      split: option.splits sum.splits prod.splits)

lemma rejected_ValueError:
  assumes "attr_duration w (VideoFileClip video_path) = None
           \<or> (\<exists>d. attr_duration w (VideoFileClip video_path) = Some d \<and> d \<le> 0)"
    and "path_exists w video_path" and "fails w TemporaryDirectory = None"
    and "fails w (New (VideoFileClip video_path)) = None"
    and "fails w (Close (VideoFileClip video_path)) = None"
    and "fails w (Cleanup (mkdtemp w)) = None"
  shows "fst (generate_video_description w video_path instructions model N s)
         = Inl (ValueError ''Video duration is 0; cannot sample frames.'')"
  using assms
  by (auto simp: generate_video_description_def with_TemporaryDirectory_def bind_def
      try_finally_def new_def lib_call_def raise_def return_def Let_def)

section \<open>Text and duration helpers\<close>

lemma strip_blank: "list_all isspace text \<Longrightarrow> strip text = []"
proof -
  assume "list_all isspace text"
  then have "dropWhile isspace text = []" by (simp add: list_all_iff)
  then show ?thesis by (simp only: strip_def rev.simps dropWhile.simps)
qed


section \<open>Merging: the helpers, the \<^verbatim>\<open>try\<close> block and the \<^verbatim>\<open>finally\<close> block\<close>

lemma new_ok: "fails w (New c) = None \<Longrightarrow> new w c s = (Inr c, s\<lparr>trace := trace s @ [New c]\<rparr>)"
  by (simp add: new_def bind_def lib_call_ok return_def)

lemma scale_volume_None: "scale_volume w None volume s = (Inr None, s)"
  by (simp add: scale_volume_def return_def)

lemma scale_volume_ok:
  "fails w (New (scaled_clip w c volume)) = None \<Longrightarrow>
   scale_volume w (Some c) volume s
   = (Inr (Some (scaled_clip w c volume)), s\<lparr>trace := trace s @ scaling_calls w c volume\<rparr>)"
  by (auto simp add: scale_volume_def scaled_clip_def scaling_calls_def return_def bind_def new_ok
      split: if_splits)

lemma subclip_ok:
  "fails w (New (trimmed_clip w c t_end)) = None \<Longrightarrow>
   subclip w (Some c) t_end s
   = (Inr (Some (trimmed_clip w c t_end)), s\<lparr>trace := trace s @ [New (trimmed_clip w c t_end)]\<rparr>)"
  by (auto simp add: subclip_def trimmed_clip_def return_def bind_def new_ok split: if_splits)

lemma set_audio_ok:
  "fails w (New (attached_clip w v a)) = None \<Longrightarrow>
   set_audio w v a s = (Inr (attached_clip w v a), s\<lparr>trace := trace s @ [New (attached_clip w v a)]\<rparr>)"
  by (auto simp add: set_audio_def attached_clip_def new_ok split: if_splits)

lemma merge_try_ok:
  assumes nofail: "\<And>c. fails w c = None"
    and a: "added_audio_clip s = Some A"
    and da: "attr_duration w (scaled_clip w A audio_volume) = Some da"
    and dv: "attr_duration w V = Some dv"
  shows "merge_try w V merged_path tmp video_volume audio_volume s
   = (let original_audio = map_option (\<lambda>c. scaled_clip w c video_volume) (attr_audio w V);
          scaled = scaled_clip w A audio_volume;
          added = (if dv < da then trimmed_clip w scaled dv else scaled);
          final_audio = (if original_audio \<noteq> None
                         then CompositeAudioClip [original_audio, Some added] else added);
          final = attached_clip w V (Some final_audio)
      in (Inr merged_path,
          s\<lparr>trace := trace s
                @ (case attr_audio w V of None \<Rightarrow> [] | Some c \<Rightarrow> scaling_calls w c video_volume)
                @ scaling_calls w A audio_volume
                @ (if dv < da then [New added] else [])
                @ (if original_audio \<noteq> None then [New final_audio] else [])
                @ [New final, Write_videofile final merged_path ''libx264'' ''aac'' tmp True],
             added_audio_clip := Some added, final_clip := Some final\<rparr>))"
proof (cases "attr_audio w V")
  case None
  show ?thesis
    unfolding merge_try_def
    by (simp add: None a da dv Let_def bind_def return_def scale_volume_None scale_volume_ok nofail
        subclip_ok set_audio_ok new_ok lib_call_ok)
next
  case (Some oa)
  show ?thesis
    unfolding merge_try_def
    by (simp add: Some a da dv Let_def bind_def return_def scale_volume_ok nofail
        subclip_ok set_audio_ok new_ok lib_call_ok)
qed

lemma merge_finally_closes:
  "merge_finally w V s
   = (Inr (),
      s\<lparr>trace := trace s
            @ (case added_audio_clip s of None \<Rightarrow> [] | Some a \<Rightarrow> [Close a])
            @ [Close V]
            @ (case final_clip s of None \<Rightarrow> [] | Some f \<Rightarrow> [Close f])\<rparr>)"
  by (simp add: merge_finally_def try_except_pass_def bind_def close_def lib_call_def raise_def
      split: option.splits prod.splits sum.splits)

lemma merge_after_open:
  assumes "fails w (New (VideoFileClip video_path)) = None"
    and "fails w (New (AudioFileClip audio_path)) = None"
    and "fails w (Makedirs (dirname_abspath w merged_path)) = None"
    and "merge_try w (VideoFileClip video_path) merged_path
           (path_join (gettempdir w) ''voxover_temp_audio.m4a'') video_volume audio_volume
           \<lparr>trace = tr
              @ (if dirname_abspath w merged_path \<noteq> []
                    \<and> \<not> path_exists w (dirname_abspath w merged_path)
                 then [Makedirs (dirname_abspath w merged_path)] else [])
              @ [New (VideoFileClip video_path), New (AudioFileClip audio_path)],
            added_audio_clip = Some (AudioFileClip audio_path), final_clip = None\<rparr>
         = (r, s1)"
  shows "merge_video_with_audio w video_path audio_path merged_path video_volume audio_volume tr
         = (r, trace s1
               @ (case added_audio_clip s1 of None \<Rightarrow> [] | Some a \<Rightarrow> [Close a])
               @ [Close (VideoFileClip video_path)]
               @ (case final_clip s1 of None \<Rightarrow> [] | Some f \<Rightarrow> [Close f]))"
proof (cases "dirname_abspath w merged_path \<noteq> []
                \<and> \<not> path_exists w (dirname_abspath w merged_path)")
  case True
  with assms show ?thesis
    by (simp add: merge_video_with_audio_def merge_run_def Let_def bind_def new_ok lib_call_ok
        return_def try_finally_def merge_finally_closes)
next
  case False
  with assms show ?thesis
    by (auto simp add: merge_video_with_audio_def merge_run_def Let_def bind_def new_ok lib_call_ok
        return_def try_finally_def merge_finally_closes)
qed

lemma written_simps [simp]:
  "written [] = []" "written (a @ b) = written a @ written b"
  "written (New c # tr) = written tr" "written (Close c # tr) = written tr"
  "written (Makedirs d # tr) = written tr"
  "written (Write_videofile v p c1 c2 t r # tr) = v # written tr"
  by (simp_all add: written_def)

lemma written_scaling_calls [simp]: "written (scaling_calls w c v) = []"
  by (simp add: scaling_calls_def)

lemma composite_scaling_calls: "New (CompositeAudioClip cs) \<notin> set (scaling_calls w c v)"
  by (simp add: scaling_calls_def)

lemma scaled_clip_duration:
  "moviepy_durations w \<Longrightarrow> attr_duration w (scaled_clip w c v) = attr_duration w c"
  by (simp add: moviepy_durations_def scaled_clip_def)

lemma trimmed_clip_duration:
  "moviepy_durations w \<Longrightarrow> attr_duration w (trimmed_clip w c t) = Some t"
  by (simp add: moviepy_durations_def trimmed_clip_def)

lemma merge_ok:
  assumes nofail: "\<And>c. fails w c = None"
    and da: "attr_duration w (scaled_clip w (AudioFileClip audio_path) audio_volume) = Some da"
    and dv: "attr_duration w (VideoFileClip video_path) = Some dv"
  shows "merge_video_with_audio w video_path audio_path merged_path video_volume audio_volume tr
   = (let V = VideoFileClip video_path;
          original_audio = map_option (\<lambda>c. scaled_clip w c video_volume) (attr_audio w V);
          scaled = scaled_clip w (AudioFileClip audio_path) audio_volume;
          added = (if dv < da then trimmed_clip w scaled dv else scaled);
          final_audio = (if original_audio \<noteq> None
                         then CompositeAudioClip [original_audio, Some added] else added);
          final = attached_clip w V (Some final_audio)
      in (Inr merged_path,
          tr @ (if dirname_abspath w merged_path \<noteq> []
                    \<and> \<not> path_exists w (dirname_abspath w merged_path)
                then [Makedirs (dirname_abspath w merged_path)] else [])
             @ [New V, New (AudioFileClip audio_path)]
             @ (case attr_audio w V of None \<Rightarrow> [] | Some c \<Rightarrow> scaling_calls w c video_volume)
             @ scaling_calls w (AudioFileClip audio_path) audio_volume
             @ (if dv < da then [New added] else [])
             @ (if original_audio \<noteq> None then [New final_audio] else [])
             @ [New final,
                Write_videofile final merged_path ''libx264'' ''aac''
                  (path_join (gettempdir w) ''voxover_temp_audio.m4a'') True,
                Close added, Close V, Close final]))"
proof -
  let ?s0 = "\<lparr>trace = tr
              @ (if dirname_abspath w merged_path \<noteq> []
                    \<and> \<not> path_exists w (dirname_abspath w merged_path)
                 then [Makedirs (dirname_abspath w merged_path)] else [])
              @ [New (VideoFileClip video_path), New (AudioFileClip audio_path)],
            added_audio_clip = Some (AudioFileClip audio_path), final_clip = None\<rparr>"
  have a: "added_audio_clip ?s0 = Some (AudioFileClip audio_path)" by simp
  obtain r s1 where t: "merge_try w (VideoFileClip video_path) merged_path
           (path_join (gettempdir w) ''voxover_temp_audio.m4a'') video_volume audio_volume ?s0
         = (r, s1)"
    by (cases "merge_try w (VideoFileClip video_path) merged_path
           (path_join (gettempdir w) ''voxover_temp_audio.m4a'') video_volume audio_volume ?s0")
  from t merge_try_ok [OF nofail a da dv, of merged_path
      "path_join (gettempdir w) ''voxover_temp_audio.m4a''" video_volume]
  have r: "r = Inr merged_path" and s1: "s1 = snd (merge_try w (VideoFileClip video_path) merged_path
           (path_join (gettempdir w) ''voxover_temp_audio.m4a'') video_volume audio_volume ?s0)"
    by (simp_all add: Let_def)
  show ?thesis
    unfolding merge_after_open [OF nofail nofail nofail t]
    unfolding r s1 merge_try_ok [OF nofail a da dv]
    by (simp add: Let_def)
qed








lemma closed_simps [simp]:
  "closed [] = []" "closed (a @ b) = closed a @ closed b"
  "closed (Close c # tr) = c # closed tr" "closed (New c # tr) = closed tr"
  "closed (TemporaryDirectory # tr) = closed tr" "closed (Cleanup d # tr) = closed tr"
  "closed (Save_frame v p t # tr) = closed tr"
  by (simp_all add: closed_def)






lemma moviepy2_durations: "moviepy_durations world_moviepy2"
  by (simp add: moviepy_durations_def world_moviepy2_def)

section \<open>Claims\<close>



text \<open>
  C2 as stated fails: with \<open>N = 0\<close> and a video of positive duration nothing is raised
  by the sampler; one frame is written at time 0 and the call returns the description.
\<close>

theorem zero_frames_counterexample:
  "generate_video_description world_plain ''v.mp4'' ''Describe'' ''gpt-4o-mini'' 0 \<lparr>trace = []\<rparr>
   = (Inr ''<p>hi</p>'',
      \<lparr>trace = [TemporaryDirectory, New (VideoFileClip ''v.mp4''),
         Save_frame (VideoFileClip ''v.mp4'') ''/tmp/tmpabc/frame_000.jpg'' 0,
         Close (VideoFileClip ''v.mp4''), Read_file ''/tmp/tmpabc/frame_000.jpg'',
         Chat_create (Chat_request ''gpt-4o-mini'' None None
           [Message ''user'' (Parts [Text ''Describe'', Image_url ''data:image/jpeg;base64,''])]
           (Some 1000)),
         Cleanup ''/tmp/tmpabc'']\<rparr>)"
  by code_simp

text \<open>
  C2, amended. When the duration of the video is missing, zero or negative, the call
  raises and no frame file is written; the exception is the \<^verbatim>\<open>ValueError\<close> of the
  sampler when the file exists and opening the clip, closing it and the temporary
  directory do not fail. A frame count \<open>N \<le> 1\<close> (so also \<open>N = 0\<close>) with a positive
  duration is not an error: exactly one frame is written, at time 0.
\<close>

theorem nonpositive_duration_rejected:
  "(attr_duration w (VideoFileClip video_path) = None
      \<or> (\<exists>d. attr_duration w (VideoFileClip video_path) = Some d \<and> d \<le> 0)
    \<longrightarrow> (\<exists>e. fst (generate_video_description w video_path instructions model N s) = Inl e)
        \<and> sampled (trace (snd (generate_video_description w video_path instructions model N s)))
            = sampled (trace s)
        \<and> (path_exists w video_path \<and> fails w TemporaryDirectory = None
             \<and> fails w (New (VideoFileClip video_path)) = None
             \<and> fails w (Close (VideoFileClip video_path)) = None
             \<and> fails w (Cleanup (mkdtemp w)) = None
            \<longrightarrow> fst (generate_video_description w video_path instructions model N s)
                 = Inl (ValueError ''Video duration is 0; cannot sample frames.'')))
   \<and> (N \<le> 1 \<and> path_exists w video_path
        \<and> (\<exists>D. attr_duration w (VideoFileClip video_path) = Some D \<and> 0 < D)
        \<and> fails w TemporaryDirectory = None
        \<and> fails w (New (VideoFileClip video_path)) = None
        \<and> (\<forall>p t. fails w (Save_frame (VideoFileClip video_path) p t) = None)
      \<longrightarrow> sampled (trace (snd (generate_video_description w video_path instructions model N s)))
            = sampled (trace s) @ [(frame_path (mkdtemp w) 0, 0)])"
proof (intro conjI impI)
  assume a: "attr_duration w (VideoFileClip video_path) = None
      \<or> (\<exists>d. attr_duration w (VideoFileClip video_path) = Some d \<and> d \<le> 0)"
  from rejected_early [OF a]
  show "\<exists>e. fst (generate_video_description w video_path instructions model N s) = Inl e"
    and "sampled (trace (snd (generate_video_description w video_path instructions model N s)))
            = sampled (trace s)"
    by blast+
  assume "path_exists w video_path \<and> fails w TemporaryDirectory = None
             \<and> fails w (New (VideoFileClip video_path)) = None
             \<and> fails w (Close (VideoFileClip video_path)) = None
             \<and> fails w (Cleanup (mkdtemp w)) = None"
  with rejected_ValueError [OF a]
  show "fst (generate_video_description w video_path instructions model N s)
                 = Inl (ValueError ''Video duration is 0; cannot sample frames.'')"
    by blast
next
  assume b: "N \<le> 1 \<and> path_exists w video_path
        \<and> (\<exists>D. attr_duration w (VideoFileClip video_path) = Some D \<and> 0 < D)
        \<and> fails w TemporaryDirectory = None
        \<and> fails w (New (VideoFileClip video_path)) = None
        \<and> (\<forall>p t. fails w (Save_frame (VideoFileClip video_path) p t) = None)"
  then obtain D where D: "attr_duration w (VideoFileClip video_path) = Some D" "0 < D" by blast
  from b have ts: "timestamps D N = [0]" by (simp add: timestamps_def)
  from b D frames_written [of w video_path D instructions model N s]
  show "sampled (trace (snd (generate_video_description w video_path instructions model N s)))
            = sampled (trace s) @ [(frame_path (mkdtemp w) 0, 0)]"
    by (simp add: ts)
qed

theorem nonpositive_duration_rejected_witness:
  "fst (generate_video_description (world_plain\<lparr>attr_duration := (\<lambda>c. Some 0)\<rparr>) ''v.mp4''
         ''Describe'' ''gpt-4o-mini'' 0 \<lparr>trace = []\<rparr>)
     = Inl (ValueError ''Video duration is 0; cannot sample frames.'')
   \<and> sampled (trace (snd (generate_video_description (world_plain\<lparr>attr_duration := (\<lambda>c. Some 0)\<rparr>)
         ''v.mp4'' ''Describe'' ''gpt-4o-mini'' 0 \<lparr>trace = []\<rparr>))) = []
   \<and> sampled (trace (snd (generate_video_description world_plain ''v.mp4'' ''Describe''
         ''gpt-4o-mini'' 0 \<lparr>trace = []\<rparr>))) = [(''/tmp/tmpabc/frame_000.jpg'', 0)]"
proof -
  let ?w = "world_plain\<lparr>attr_duration := (\<lambda>c. Some 0)\<rparr>"
  have a: "attr_duration ?w (VideoFileClip ''v.mp4'') = None
      \<or> (\<exists>d. attr_duration ?w (VideoFileClip ''v.mp4'') = Some d \<and> d \<le> 0)"
    by simp
  have b: "path_exists ?w ''v.mp4'' \<and> fails ?w TemporaryDirectory = None
             \<and> fails ?w (New (VideoFileClip ''v.mp4'')) = None
             \<and> fails ?w (Close (VideoFileClip ''v.mp4'')) = None
             \<and> fails ?w (Cleanup (mkdtemp ?w)) = None"
    by (simp add: world_plain_def)
  have c: "(0::int) \<le> 1 \<and> path_exists world_plain ''v.mp4''
        \<and> (\<exists>D. attr_duration world_plain (VideoFileClip ''v.mp4'') = Some D \<and> 0 < D)
        \<and> fails world_plain TemporaryDirectory = None
        \<and> fails world_plain (New (VideoFileClip ''v.mp4'')) = None
        \<and> (\<forall>p t. fails world_plain (Save_frame (VideoFileClip ''v.mp4'') p t) = None)"
    by (simp add: world_plain_def)
  have fp: "frame_path (mkdtemp world_plain) 0 = ''/tmp/tmpabc/frame_000.jpg''"
    by code_simp
  from nonpositive_duration_rejected
         [of ?w "''v.mp4''" "''Describe''" "''gpt-4o-mini''" 0 "\<lparr>trace = []\<rparr>"] a b
  have 1: "fst (generate_video_description ?w ''v.mp4'' ''Describe'' ''gpt-4o-mini'' 0
             \<lparr>trace = []\<rparr>)
           = Inl (ValueError ''Video duration is 0; cannot sample frames.'')"
    and 2: "sampled (trace (snd (generate_video_description ?w ''v.mp4'' ''Describe''
             ''gpt-4o-mini'' 0 \<lparr>trace = []\<rparr>))) = []"
    by simp_all
  from nonpositive_duration_rejected
         [of world_plain "''v.mp4''" "''Describe''" "''gpt-4o-mini''" 0 "\<lparr>trace = []\<rparr>"] c
  have 3: "sampled (trace (snd (generate_video_description world_plain ''v.mp4'' ''Describe''
             ''gpt-4o-mini'' 0 \<lparr>trace = []\<rparr>))) = [(''/tmp/tmpabc/frame_000.jpg'', 0)]"
    by (simp add: fp)
  from 1 2 3 show ?thesis by simp
qed





text \<open>
  C4. Scaling the volume of an audio track by exactly 1.0 is a no-op: \<^verbatim>\<open>_scale_volume\<close>
  returns the very object it was given and makes no call to the library, so the track
  is not recomputed.
\<close>

theorem scale_volume_one_identity:
  "scale_volume w audio_clip 1 s = (Inr audio_clip, s)"
  by (simp add: scale_volume_def return_def)

theorem scale_volume_one_identity_witness:
  "scale_volume world_plain (Some (AudioFileClip ''a.mp3'')) 1
     \<lparr>trace = [New (AudioFileClip ''a.mp3'')]\<rparr>
   = (Inr (Some (AudioFileClip ''a.mp3'')), \<lparr>trace = [New (AudioFileClip ''a.mp3'')]\<rparr>)"
  using scale_volume_one_identity
    [of world_plain "Some (AudioFileClip ''a.mp3'')" "\<lparr>trace = [New (AudioFileClip ''a.mp3'')]\<rparr>"]
  by simp

text \<open>
  C5. When no call fails and the narration lasts longer than the video, the narration
  track that is composed is the part from 0 to the video's duration of the (scaled)
  narration clip, and the clip written is the video clip itself with the final audio
  attached. With durations as MoviePy documents them, and an original audio track, if
  any, that is not longer than the video, the narration track and the final audio track
  both last exactly as long as the video.
\<close>

theorem narration_trimmed_to_video:
  assumes nofail: "\<And>c. fails w c = None" and lib: "moviepy_durations w"
    and da: "attr_duration w (AudioFileClip audio_path) = Some da"
    and dv: "attr_duration w (VideoFileClip video_path) = Some dv" and longer: "dv < da"
    and orig: "\<And>oa. attr_audio w (VideoFileClip video_path) = Some oa \<Longrightarrow>
                 \<exists>x. attr_duration w oa = Some x \<and> x \<le> dv"
  shows "let narration = trimmed_clip w (scaled_clip w (AudioFileClip audio_path) audio_volume) dv;
             final_audio =
               (case attr_audio w (VideoFileClip video_path) of
                  None \<Rightarrow> narration
                | Some oa \<Rightarrow> CompositeAudioClip [Some (scaled_clip w oa video_volume), Some narration])
         in \<exists>calls.
              merge_video_with_audio w video_path audio_path merged_path video_volume audio_volume tr
                = (Inr merged_path, tr @ calls)
              \<and> written calls = [attached_clip w (VideoFileClip video_path) (Some final_audio)]
              \<and> attr_duration w narration = Some dv
              \<and> attr_duration w final_audio = Some dv"
proof -
  let ?narration = "trimmed_clip w (scaled_clip w (AudioFileClip audio_path) audio_volume) dv"
  from da lib have da': "attr_duration w (scaled_clip w (AudioFileClip audio_path) audio_volume) = Some da"
    by (simp add: scaled_clip_duration)
  have n: "attr_duration w ?narration = Some dv" by (rule trimmed_clip_duration [OF lib])
  show ?thesis
  proof (cases "attr_audio w (VideoFileClip video_path)")
    case None
    show ?thesis
      unfolding Let_def merge_ok [OF nofail da' dv]
      using None longer n by simp
  next
    case (Some oa)
    from orig [OF Some] obtain x where x: "attr_duration w oa = Some x" "x \<le> dv" by blast
    from x lib have "attr_duration w (scaled_clip w oa video_volume) = Some x"
      by (simp add: scaled_clip_duration)
    with n lib have "attr_duration w (CompositeAudioClip [Some (scaled_clip w oa video_volume), Some ?narration]) = Some (max x dv)"
      unfolding moviepy_durations_def by blast
    with x have c: "attr_duration w (CompositeAudioClip [Some (scaled_clip w oa video_volume), Some ?narration]) = Some dv"
      by (simp add: max_def)
    show ?thesis
      unfolding Let_def merge_ok [OF nofail da' dv]
      using Some longer n c by simp
  qed
qed

theorem narration_trimmed_to_video_witness:
  "moviepy_durations world_moviepy2
   \<and> attr_duration world_moviepy2 (AudioFileClip ''voice.mp3'') = Some 75
   \<and> attr_duration world_moviepy2 (VideoFileClip ''v.mp4'') = Some 60
   \<and> written (snd (merge_video_with_audio world_moviepy2 ''v.mp4'' ''voice.mp3'' ''/out/m.mp4''
        1 (1 / 2) []))
     = [Clip_with_audio (VideoFileClip ''v.mp4'')
         (Some (CompositeAudioClip [Some (AudioFileClip ''v.mp4''),
            Some (Clip_subclipped (Clip_with_volume_scaled (AudioFileClip ''voice.mp3'') (1 / 2))
                    0 60)]))]
   \<and> attr_duration world_moviepy2
        (Clip_subclipped (Clip_with_volume_scaled (AudioFileClip ''voice.mp3'') (1 / 2)) 0 60)
     = Some 60
   \<and> attr_duration world_moviepy2
        (CompositeAudioClip [Some (AudioFileClip ''v.mp4''),
            Some (Clip_subclipped (Clip_with_volume_scaled (AudioFileClip ''voice.mp3'') (1 / 2))
                    0 60)])
     = Some 60"
proof -
  have nofail: "\<And>c. fails world_moviepy2 c = None" by (simp add: world_moviepy2_def)
  have da: "attr_duration world_moviepy2 (AudioFileClip ''voice.mp3'') = Some 75"
    and dv: "attr_duration world_moviepy2 (VideoFileClip ''v.mp4'') = Some 60"
    by (simp_all add: world_moviepy2_def)
  have orig: "\<And>oa. attr_audio world_moviepy2 (VideoFileClip ''v.mp4'') = Some oa \<Longrightarrow>
                 \<exists>x. attr_duration world_moviepy2 oa = Some x \<and> x \<le> 60"
    by (auto simp add: world_moviepy2_def)
  have sc: "scaled_clip world_moviepy2 (AudioFileClip ''voice.mp3'') (1 / 2)
            = Clip_with_volume_scaled (AudioFileClip ''voice.mp3'') (1 / 2)"
    and sc1: "scaled_clip world_moviepy2 (AudioFileClip ''v.mp4'') 1 = AudioFileClip ''v.mp4''"
    and tc: "\<And>c t. trimmed_clip world_moviepy2 c t = Clip_subclipped c 0 t"
    and ac: "\<And>v a. attached_clip world_moviepy2 v a = Clip_with_audio v a"
    and au: "attr_audio world_moviepy2 (VideoFileClip ''v.mp4'') = Some (AudioFileClip ''v.mp4'')"
    by (simp_all add: scaled_clip_def trimmed_clip_def attached_clip_def world_moviepy2_def)
  from narration_trimmed_to_video [where audio_volume = "1 / 2" and video_volume = 1
      and merged_path = "''/out/m.mp4''" and tr = "[]", OF nofail moviepy2_durations da dv _ orig]
  have "written (snd (merge_video_with_audio world_moviepy2 ''v.mp4'' ''voice.mp3'' ''/out/m.mp4''
        1 (1 / 2) []))
     = [Clip_with_audio (VideoFileClip ''v.mp4'')
         (Some (CompositeAudioClip [Some (AudioFileClip ''v.mp4''),
            Some (Clip_subclipped (Clip_with_volume_scaled (AudioFileClip ''voice.mp3'') (1 / 2))
                    0 60)]))]
   \<and> attr_duration world_moviepy2
        (Clip_subclipped (Clip_with_volume_scaled (AudioFileClip ''voice.mp3'') (1 / 2)) 0 60)
     = Some 60
   \<and> attr_duration world_moviepy2
        (CompositeAudioClip [Some (AudioFileClip ''v.mp4''),
            Some (Clip_subclipped (Clip_with_volume_scaled (AudioFileClip ''voice.mp3'') (1 / 2))
                    0 60)])
     = Some 60"
    by (auto simp add: Let_def sc sc1 tc ac au)
  with moviepy2_durations da dv show ?thesis by simp
qed

text \<open>
  C6. When no call fails: if the video has no audio track, the audio attached to the
  written clip is the narration track itself (scaled, trimmed if longer than the video)
  and no \<^verbatim>\<open>CompositeAudioClip\<close> is made; if it has one, the audio attached is the
  composite of the (scaled) original track and the narration track, in this order.
\<close>

theorem final_audio_track:
  assumes nofail: "\<And>c. fails w c = None"
    and da: "attr_duration w (scaled_clip w (AudioFileClip audio_path) audio_volume) = Some da"
    and dv: "attr_duration w (VideoFileClip video_path) = Some dv"
  shows "let scaled = scaled_clip w (AudioFileClip audio_path) audio_volume;
             narration = (if dv < da then trimmed_clip w scaled dv else scaled)
         in \<exists>calls.
              merge_video_with_audio w video_path audio_path merged_path video_volume audio_volume tr
                = (Inr merged_path, tr @ calls)
              \<and> (case attr_audio w (VideoFileClip video_path) of
                    None \<Rightarrow>
                      written calls = [attached_clip w (VideoFileClip video_path) (Some narration)]
                      \<and> (\<forall>cs. New (CompositeAudioClip cs) \<notin> set calls)
                  | Some oa \<Rightarrow>
                      written calls = [attached_clip w (VideoFileClip video_path)
                        (Some (CompositeAudioClip [Some (scaled_clip w oa video_volume), Some narration]))])"
proof (cases "attr_audio w (VideoFileClip video_path)")
  case None
  show ?thesis
    unfolding Let_def merge_ok [OF nofail da dv]
    using None
    by (simp add: composite_scaling_calls trimmed_clip_def attached_clip_def)
next
  case (Some oa)
  show ?thesis
    unfolding Let_def merge_ok [OF nofail da dv]
    using Some by simp
qed

theorem final_audio_track_witness:
  "attr_audio world_plain (VideoFileClip ''v.mp4'') = None
   \<and> written (snd (merge_video_with_audio world_plain ''v.mp4'' ''voice.mp3'' ''/out/m.mp4''
        1 (1 / 2) []))
     = [Clip_set_audio (VideoFileClip ''v.mp4'') (Some (AudioFileClip ''voice.mp3''))]
   \<and> attr_audio world_moviepy2 (VideoFileClip ''v.mp4'') = Some (AudioFileClip ''v.mp4'')
   \<and> written (snd (merge_video_with_audio world_moviepy2 ''v.mp4'' ''voice.mp3'' ''/out/m.mp4''
        1 (1 / 2) []))
     = [Clip_with_audio (VideoFileClip ''v.mp4'')
         (Some (CompositeAudioClip [Some (AudioFileClip ''v.mp4''),
            Some (Clip_subclipped (Clip_with_volume_scaled (AudioFileClip ''voice.mp3'') (1 / 2))
                    0 60)]))]"
proof -
  have nofail: "\<And>c. fails world_plain c = None" by (simp add: world_plain_def)
  have nofail2: "\<And>c. fails world_moviepy2 c = None" by (simp add: world_moviepy2_def)
  have sp: "scaled_clip world_plain (AudioFileClip ''voice.mp3'') (1 / 2) = AudioFileClip ''voice.mp3''"
    and ap: "\<And>v a. attached_clip world_plain v a = Clip_set_audio v a"
    and aup: "attr_audio world_plain (VideoFileClip ''v.mp4'') = None"
    by (simp_all add: scaled_clip_def attached_clip_def world_plain_def)
  have da: "attr_duration world_plain (scaled_clip world_plain (AudioFileClip ''voice.mp3'') (1 / 2))
            = Some 60"
    and dv: "attr_duration world_plain (VideoFileClip ''v.mp4'') = Some 60"
    by (simp_all add: world_plain_def)
  have sc: "scaled_clip world_moviepy2 (AudioFileClip ''voice.mp3'') (1 / 2)
            = Clip_with_volume_scaled (AudioFileClip ''voice.mp3'') (1 / 2)"
    and sc1: "scaled_clip world_moviepy2 (AudioFileClip ''v.mp4'') 1 = AudioFileClip ''v.mp4''"
    and tc: "\<And>c t. trimmed_clip world_moviepy2 c t = Clip_subclipped c 0 t"
    and ac: "\<And>v a. attached_clip world_moviepy2 v a = Clip_with_audio v a"
    and au: "attr_audio world_moviepy2 (VideoFileClip ''v.mp4'') = Some (AudioFileClip ''v.mp4'')"
    by (simp_all add: scaled_clip_def trimmed_clip_def attached_clip_def world_moviepy2_def)
  have da2: "attr_duration world_moviepy2
               (scaled_clip world_moviepy2 (AudioFileClip ''voice.mp3'') (1 / 2)) = Some 75"
    and dv2: "attr_duration world_moviepy2 (VideoFileClip ''v.mp4'') = Some 60"
    unfolding sc by (simp_all add: world_moviepy2_def)
  from final_audio_track [where video_volume = 1 and merged_path = "''/out/m.mp4''"
      and tr = "[]", OF nofail da dv]
  have 1: "written (snd (merge_video_with_audio world_plain ''v.mp4'' ''voice.mp3'' ''/out/m.mp4''
        1 (1 / 2) []))
     = [Clip_set_audio (VideoFileClip ''v.mp4'') (Some (AudioFileClip ''voice.mp3''))]"
    by (auto simp add: Let_def sp ap aup)
  from final_audio_track [where video_volume = 1 and merged_path = "''/out/m.mp4''"
      and tr = "[]", OF nofail2 da2 dv2]
  have 2: "written (snd (merge_video_with_audio world_moviepy2 ''v.mp4'' ''voice.mp3'' ''/out/m.mp4''
        1 (1 / 2) []))
     = [Clip_with_audio (VideoFileClip ''v.mp4'')
         (Some (CompositeAudioClip [Some (AudioFileClip ''v.mp4''),
            Some (Clip_subclipped (Clip_with_volume_scaled (AudioFileClip ''voice.mp3'') (1 / 2))
                    0 60)]))]"
    by (auto simp add: Let_def sc sc1 tc ac au)
  from 1 2 aup au show ?thesis by simp
qed

text \<open>
  C7. Whatever the backend answers, the text that \<^verbatim>\<open>generate_text\<close> and
  \<^verbatim>\<open>generate_image_description\<close> return contains neither \<^verbatim>\<open>```html\<close> nor \<^verbatim>\<open>```\<close>.
\<close>

theorem no_code_fence_returned:
  assumes "generate_text w prompt instructions model output_type temperature s = (Inr r, s')
           \<or> generate_image_description w image_paths instructions model max_tokens s = (Inr r, s')"
  shows "\<not> sublist ''```'' r \<and> \<not> sublist ''```html'' r"
  using assms
proof
  assume "generate_text w prompt instructions model output_type temperature s = (Inr r, s')"
  then obtain response where "r = replace (replace response ''```html'' []) ''```'' []"
    by (auto simp: generate_text_def bind_def return_def split: prod.splits sum.splits)
  then show ?thesis by (simp only: strip_fences_clean simp_thms)
next
  assume "generate_image_description w image_paths instructions model max_tokens s = (Inr r, s')"
  then obtain response where "r = replace (replace response ''```html'' []) ''```'' []"
    by (auto simp: generate_image_description_def Let_def bind_def return_def
          split: prod.splits sum.splits)
  then show ?thesis by (simp only: strip_fences_clean simp_thms)
qed

theorem no_code_fence_returned_witness:
  "generate_text world_plain ''Say hi'' ''You are a helpful AI named Jarvis'' ''gpt-4o-mini''
     ''text'' 1 \<lparr>trace = []\<rparr>
   = (Inr ''<p>hi</p>'',
      \<lparr>trace = [Chat_create (Chat_request ''gpt-4o-mini'' (Some 1) (Some ''text'')
         [Message ''system'' (Str ''You are a helpful AI named Jarvis''),
          Message ''user'' (Str ''Say hi'')] None)]\<rparr>)
   \<and> \<not> sublist ''```'' ''<p>hi</p>'' \<and> \<not> sublist ''```html'' ''<p>hi</p>''"
proof -
  have h: "generate_text world_plain ''Say hi'' ''You are a helpful AI named Jarvis''
       ''gpt-4o-mini'' ''text'' 1 \<lparr>trace = []\<rparr>
     = (Inr ''<p>hi</p>'',
        \<lparr>trace = [Chat_create (Chat_request ''gpt-4o-mini'' (Some 1) (Some ''text'')
           [Message ''system'' (Str ''You are a helpful AI named Jarvis''),
            Message ''user'' (Str ''Say hi'')] None)]\<rparr>)"
    by code_simp
  from no_code_fence_returned [OF disjI1 [OF h]] h show ?thesis by simp
qed




text \<open>
  C9. For a text that is empty or made of whitespace only, \<^verbatim>\<open>generate_audio\<close> raises
  its \<^verbatim>\<open>ValueError\<close> and the calls made are unchanged: the backend is not called.
\<close>

theorem blank_text_rejected:
  assumes "list_all isspace text"
  shows "generate_audio w text file_path model voice speed s
         = (Inl (ValueError ''Cannot generate audio from empty text.''), s)"
  using strip_blank [OF assms] by (simp add: generate_audio_def raise_def)

theorem blank_text_rejected_witness:
  "list_all isspace [CHR '' '', CHR 0x09, CHR 0x0A]
   \<and> generate_audio world_plain [CHR '' '', CHR 0x09, CHR 0x0A] ''out.mp3'' ''gpt-4o-mini-tts''
        ''nova'' 1 \<lparr>trace = []\<rparr>
     = (Inl (ValueError ''Cannot generate audio from empty text.''), \<lparr>trace = []\<rparr>)
   \<and> generate_audio world_plain [] ''out.mp3'' ''gpt-4o-mini-tts'' ''nova'' 1 \<lparr>trace = []\<rparr>
     = (Inl (ValueError ''Cannot generate audio from empty text.''), \<lparr>trace = []\<rparr>)"
proof -
  have h: "list_all isspace [CHR '' '', CHR 0x09, CHR 0x0A]" by (simp add: isspace_def)
  have e: "list_all isspace []" by simp
  from h blank_text_rejected [OF h, of world_plain "''out.mp3''" "''gpt-4o-mini-tts''" "''nova''" 1
      "\<lparr>trace = []\<rparr>"]
    blank_text_rejected [OF e, of world_plain "''out.mp3''" "''gpt-4o-mini-tts''" "''nova''" 1
      "\<lparr>trace = []\<rparr>"]
  show ?thesis by simp
qed

text \<open>
  C10. When a clip has neither \<^verbatim>\<open>with_volume_scaled\<close> nor \<^verbatim>\<open>volumex\<close>,
  \<^verbatim>\<open>_scale_volume\<close> returns it as it is for every multiplier, raises nothing and calls
  nothing: the volume change asked for is dropped.
\<close>

theorem scale_volume_unsupported_dropped:
  assumes "\<not> hasattr w c ''with_volume_scaled''" and "\<not> hasattr w c ''volumex''"
  shows "scale_volume w (Some c) volume s = (Inr (Some c), s)"
  using assms by (simp add: scale_volume_def return_def)

theorem scale_volume_unsupported_dropped_witness:
  "\<not> hasattr world_plain (AudioFileClip ''a.mp3'') ''with_volume_scaled''
   \<and> \<not> hasattr world_plain (AudioFileClip ''a.mp3'') ''volumex''
   \<and> scale_volume world_plain (Some (AudioFileClip ''a.mp3'')) (1 / 2) \<lparr>trace = []\<rparr>
       = (Inr (Some (AudioFileClip ''a.mp3'')), \<lparr>trace = []\<rparr>)"
proof -
  have h1: "\<not> hasattr world_plain (AudioFileClip ''a.mp3'') ''with_volume_scaled''"
    by (simp add: world_plain_def)
  have h2: "\<not> hasattr world_plain (AudioFileClip ''a.mp3'') ''volumex''"
    by (simp add: world_plain_def)
  show ?thesis
    using h1 h2 scale_volume_unsupported_dropped [OF h1 h2, of "1 / 2" "\<lparr>trace = []\<rparr>"]
    by simp
qed

end
